theory Spec2Isabelle
  imports Main "HOL-Library.AList"
begin

section \<open>Python values, exceptions and dictionaries\<close>

text \<open>
  The exceptions that the methods of \<^verbatim>\<open>Geodatabase\<close> can meet. All of them derive from
  Python's \<^verbatim>\<open>Exception\<close>, so \<^verbatim>\<open>except Exception\<close> catches every one of them;
  \<open>BackendError\<close> stands for whatever \<^verbatim>\<open>arcpy\<close>, \<^verbatim>\<open>ogr\<close> or a descriptor class raises.
\<close>

datatype pyexc =
    AttributeError | KeyError | TypeError | ValueError | IndexError
  | UnboundLocalError | ParseError | BackendError string

text \<open>
  Property values: strings, numbers, the pair of floats of a range and the plain
  dictionary of coded values. The type \<open>'f\<close> is the type of Python floats; the source
  only builds floats with \<^verbatim>\<open>float(text)\<close> and never computes with them.
\<close>

datatype 'f pyval =
    PNone | PStr string | PInt int | PRange 'f 'f
  | PDict "(string option \<times> string option) list"

text \<open>
  \<^verbatim>\<open>OrderedDict\<close>: an association list in insertion order. The assignment
  \<^verbatim>\<open>od[k] = v\<close> replaces the value of a key that is present, in place, and appends a
  new key at the end.
\<close>

type_synonym 'v odict = "(string \<times> 'v) list"

definition od_set :: "'v odict \<Rightarrow> string \<Rightarrow> 'v \<Rightarrow> 'v odict" where
  "od_set od k v = AList.update k v od"

definition od_keys :: "'v odict \<Rightarrow> string list" where
  "od_keys od = map fst od"

definition od_get :: "'v odict \<Rightarrow> string \<Rightarrow> 'v option" where
  "od_get od k = map_of od k"

text \<open>\<^verbatim>\<open>d.get(k, default)\<close> on a static table.\<close>

definition dict_get :: "(string \<times> string) list \<Rightarrow> string \<Rightarrow> string \<Rightarrow> string" where
  "dict_get d k dflt = (case map_of d k of None \<Rightarrow> dflt | Some v \<Rightarrow> v)"

text \<open>
  Attribute access on an object: \<open>Inl AttributeError\<close> when the attribute is absent.
  \<^verbatim>\<open>getattr(obj, k, default)\<close> turns that one exception into the default.
\<close>

type_synonym 'f attrs = "string \<Rightarrow> pyexc + 'f pyval"

definition getattr :: "'f attrs \<Rightarrow> string \<Rightarrow> 'f pyval \<Rightarrow> pyexc + 'f pyval" where
  "getattr obj k dflt =
     (case obj k of
        Inl e \<Rightarrow> (if e = AttributeError then Inr dflt else Inl e)
      | Inr v \<Rightarrow> Inr v)"

text \<open>\<^verbatim>\<open>str.lower\<close> on byte strings and the substring test \<^verbatim>\<open>needle in hay\<close>.\<close>

definition lower_char :: "char \<Rightarrow> char" where
  "lower_char c =
     (case map_of (zip ''ABCDEFGHIJKLMNOPQRSTUVWXYZ'' ''abcdefghijklmnopqrstuvwxyz'') c of
        None \<Rightarrow> c | Some d \<Rightarrow> d)"

definition lower :: "string \<Rightarrow> string" where
  "lower s = map lower_char s"

fun contains :: "string \<Rightarrow> string \<Rightarrow> bool" where
  "contains [] needle = (needle = [])"
| "contains (h # hs) needle =
     (take (length needle) (h # hs) = needle \<or> contains hs needle)"


section \<open>XML definitions of the system catalog\<close>

text \<open>
  An \<^verbatim>\<open>ElementTree\<close> element: tag, text (\<^verbatim>\<open>None\<close> for an element without text) and
  children. \<^verbatim>\<open>find\<close> gives the first child with a tag or \<^verbatim>\<open>None\<close>, \<^verbatim>\<open>findall\<close>
  all children with it; the tags passed are plain names.
\<close>

datatype xml = Element (tag: string) (elem_text: "string option") (children: "xml list")

definition xml_find :: "xml \<Rightarrow> string \<Rightarrow> xml option" where
  "xml_find e k = List.find (\<lambda>c. tag c = k) (children e)"

definition xml_findall :: "xml \<Rightarrow> string \<Rightarrow> xml list" where
  "xml_findall e k = filter (\<lambda>c. tag c = k) (children e)"

text \<open>\<^verbatim>\<open>x.text\<close> where \<^verbatim>\<open>x\<close> is the result of \<^verbatim>\<open>find\<close>: \<^verbatim>\<open>None.text\<close> raises.\<close>

definition text_of :: "xml option \<Rightarrow> pyexc + string option" where
  "text_of x = (case x of None \<Rightarrow> Inl AttributeError | Some e \<Rightarrow> Inr (elem_text e))"

text \<open>
  A row of \<^verbatim>\<open>GDB_Items\<close>, seen through its \<^verbatim>\<open>Definition\<close> column: \<open>None\<close> for a null
  or empty definition (a false \<^verbatim>\<open>item\<close>), otherwise what \<^verbatim>\<open>ET.fromstring\<close> makes of
  the text: the parsed element, or the exception of the parser.
\<close>

type_synonym row = "(pyexc + xml) option"


section \<open>The backends, the descriptor classes and the mapping tables\<close>

text \<open>
  \<^verbatim>\<open>Table\<close>, \<^verbatim>\<open>TableOgr\<close>, \<^verbatim>\<open>FeatureClass\<close> and \<^verbatim>\<open>FeatureClassOgr\<close> instances:
  their attributes and the result of \<^verbatim>\<open>get_row_count()\<close>.
\<close>

record 'f dataset_obj =
  attr :: "'f attrs"
  get_row_count :: "pyexc + 'f pyval"

text \<open>
  What \<^verbatim>\<open>arcpy\<close> answers. The listing functions and \<^verbatim>\<open>Describe(name).catalogPath\<close>
  read \<^verbatim>\<open>arcpy.env.workspace\<close>, their first argument here; \<^verbatim>\<open>Describe(path)\<close> of
  the geodatabase itself is asked with the path of the object.
\<close>

record 'f arcpy =
  da_ListDomains :: "string \<Rightarrow> pyexc + 'f attrs list"
  ListTables :: "string \<Rightarrow> pyexc + string list"
  ListDatasets :: "string \<Rightarrow> pyexc + string list"
  ListFeatureClasses :: "string \<Rightarrow> pyexc + string list"
  Describe_catalogPath :: "string \<Rightarrow> string \<Rightarrow> pyexc + string"
  Describe_release :: "string \<Rightarrow> pyexc + string"
  Describe_workspaceFactoryProgID :: "string \<Rightarrow> pyexc + string"
  os_path_join :: "string \<Rightarrow> string \<Rightarrow> string"
  Table :: "string \<Rightarrow> pyexc + 'f dataset_obj"
  FeatureClass :: "string \<Rightarrow> pyexc + 'f dataset_obj"

text \<open>
  What \<^verbatim>\<open>ogr\<close> answers: \<^verbatim>\<open>ogr.Open\<close> gives a data source or \<^verbatim>\<open>None\<close>; a data
  source has its layers, in index order, and the rows of
  \<^verbatim>\<open>select * from GDB_Items\<close>. Python's \<^verbatim>\<open>float\<close> on a string is kept with
  this backend, the only one that calls it: it gives a float or raises.
\<close>

record layer =
  GetName :: string
  GetGeometryColumn :: string

record datasource =
  layers :: "layer list"
  GDB_Items :: "pyexc + row list"

record 'f ogr =
  Open :: "string \<Rightarrow> datasource option"
  TableOgr :: "string \<Rightarrow> string \<Rightarrow> pyexc + 'f dataset_obj"
  FeatureClassOgr :: "string \<Rightarrow> string \<Rightarrow> pyexc + 'f dataset_obj"
  float :: "string \<Rightarrow> pyexc + 'f"

text \<open>
  The import at the head of the module binds exactly one backend:
  \<^verbatim>\<open>arcpy_found\<close> is true for \<open>Arcpy\<close> and false for \<open>Ogr\<close>.
\<close>

datatype 'f backend = Arcpy "'f arcpy" | Ogr "'f ogr"

fun arcpy_found :: "'f backend \<Rightarrow> bool" where
  "arcpy_found (Arcpy a) = True"
| "arcpy_found (Ogr g) = False"

text \<open>
  The static tables of \<^verbatim>\<open>_util_mappings\<close>, in the order of their items. Their
  contents are parameters of every definition below.
\<close>

record tables =
  GDB_RELEASE :: "(string \<times> string) list"
  GDB_WKSPC_TYPE :: "(string \<times> string) list"
  GDB_PROPS :: "(string \<times> string) list"
  GDB_DOMAIN_PROPS :: "(string \<times> string) list"
  GDB_TABLE_PROPS :: "(string \<times> string) list"
  GDB_FC_PROPS :: "(string \<times> string) list"
  OGR_GDB_DOMAIN_PROPS :: "(string \<times> string) list"
  OGR_DOMAIN_PROPS_MAPPINGS :: "(string \<times> string) list"


section \<open>The Geodatabase object and its construction\<close>

record geodatabase =
  path :: string
  release :: string
  wkspc_type :: string

text \<open>
  The state the methods run in: the object itself, the global
  \<^verbatim>\<open>arcpy.env.workspace\<close> and what has been printed.
\<close>

datatype notice =
    CouldNotReadTable string pyexc
  | Printed pyexc

record state =
  self :: geodatabase
  env_workspace :: string
  stdout :: "notice list"

text \<open>\<^verbatim>\<open>_ogr_get_gdb_metadata\<close>: the loop keeps the last definition parsed and stops at
  the first \<^verbatim>\<open>DEWorkspace\<close>; with no definition parsed, \<^verbatim>\<open>xml\<close> is unbound.\<close>

fun metadata_loop :: "row list \<Rightarrow> xml option \<Rightarrow> pyexc + xml option" where
  "metadata_loop [] cur = Inr cur"
| "metadata_loop (None # rows) cur = metadata_loop rows cur"
| "metadata_loop (Some (Inl e) # rows) cur = Inl e"
| "metadata_loop (Some (Inr x) # rows) cur =
     (if tag x = ''DEWorkspace'' then Inr (Some x) else metadata_loop rows (Some x))"

definition execute_sql :: "'f ogr \<Rightarrow> string \<Rightarrow> pyexc + row list" where
  "execute_sql g p =
     (case Open g p of None \<Rightarrow> Inl AttributeError | Some ds \<Rightarrow> GDB_Items ds)"

definition ogr_get_gdb_metadata :: "'f ogr \<Rightarrow> string \<Rightarrow> pyexc + xml" where
  "ogr_get_gdb_metadata g p =
     (case execute_sql g p of
        Inl e \<Rightarrow> Inl e
      | Inr rows \<Rightarrow>
          (case metadata_loop rows None of
             Inl e \<Rightarrow> Inl e
           | Inr None \<Rightarrow> Inl UnboundLocalError
           | Inr (Some x) \<Rightarrow> Inr x))"

text \<open>\<^verbatim>\<open>','.join([a, b, c])\<close> of three texts: a \<^verbatim>\<open>None\<close> among them is a TypeError.\<close>

definition join3 :: "string option \<Rightarrow> string option \<Rightarrow> string option \<Rightarrow> pyexc + string" where
  "join3 a b c =
     (case (a, b, c) of
        (Some x, Some y, Some z) \<Rightarrow> Inr (x @ '','' @ y @ '','' @ z)
      | _ \<Rightarrow> Inl TypeError)"

definition get_release :: "'f backend \<Rightarrow> tables \<Rightarrow> string \<Rightarrow> pyexc + string" where
  "get_release B T p =
     (case B of
        Arcpy a \<Rightarrow>
          (case Describe_release a p of
             Inl e \<Rightarrow> Inl e
           | Inr r \<Rightarrow> Inr (dict_get (GDB_RELEASE T) r ''''))
      | Ogr g \<Rightarrow>
          (case ogr_get_gdb_metadata g p of
             Inl e \<Rightarrow> Inl e
           | Inr x \<Rightarrow>
               (case text_of (xml_find x ''MajorVersion'') of
                  Inl e \<Rightarrow> Inl e
                | Inr a \<Rightarrow>
                    (case text_of (xml_find x ''MinorVersion'') of
                       Inl e \<Rightarrow> Inl e
                     | Inr b \<Rightarrow>
                         (case text_of (xml_find x ''BugfixVersion'') of
                            Inl e \<Rightarrow> Inl e
                          | Inr c \<Rightarrow>
                              (case join3 a b c of
                                 Inl e \<Rightarrow> Inl e
                               | Inr v \<Rightarrow> Inr (dict_get (GDB_RELEASE T) v '''')))))))"

text \<open>The comprehension of \<^verbatim>\<open>_get_wkspc_type\<close> asks \<^verbatim>\<open>arcpy.Describe\<close> once for each
  item of the table.\<close>

fun wkspc_matches ::
  "(string \<Rightarrow> pyexc + string) \<Rightarrow> string \<Rightarrow> (string \<times> string) list \<Rightarrow> pyexc + string list" where
  "wkspc_matches d p [] = Inr []"
| "wkspc_matches d p ((key, val) # kvs) =
     (case d p of
        Inl e \<Rightarrow> Inl e
      | Inr progid \<Rightarrow>
          (case wkspc_matches d p kvs of
             Inl e \<Rightarrow> Inl e
           | Inr vs \<Rightarrow> Inr (if contains (lower progid) (lower key) then val # vs else vs)))"

definition get_wkspc_type :: "'f backend \<Rightarrow> tables \<Rightarrow> string \<Rightarrow> pyexc + string" where
  "get_wkspc_type B T p =
     (case B of
        Arcpy a \<Rightarrow>
          (case wkspc_matches (Describe_workspaceFactoryProgID a) p (GDB_WKSPC_TYPE T) of
             Inl e \<Rightarrow> Inl e
           | Inr [] \<Rightarrow> Inl IndexError
           | Inr (v # vs) \<Rightarrow> Inr v)
      | Ogr g \<Rightarrow> Inr ''File geodatabase'')"

text \<open>\<^verbatim>\<open>__init__\<close>: the path, then the release, then the workspace type.\<close>

definition init :: "'f backend \<Rightarrow> tables \<Rightarrow> string \<Rightarrow> pyexc + geodatabase" where
  "init B T p =
     (case get_release B T p of
        Inl e \<Rightarrow> Inl e
      | Inr r \<Rightarrow>
          (case get_wkspc_type B T p of
             Inl e \<Rightarrow> Inl e
           | Inr w \<Rightarrow> Inr \<lparr>path = p, release = r, wkspc_type = w\<rparr>))"


section \<open>The query methods\<close>

text \<open>Every method returns its result, or the exception it raises, and the state it
  leaves. Three loop shapes recur in the source.\<close>

text \<open>\<^verbatim>\<open>for k, v in PROPS.items(): od[v] = f(k)\<close>\<close>

fun od_fill ::
  "(string \<Rightarrow> pyexc + 'v) \<Rightarrow> (string \<times> string) list \<Rightarrow> 'v odict \<Rightarrow> pyexc + 'v odict" where
  "od_fill f [] od = Inr od"
| "od_fill f ((k, v) # kvs) od =
     (case f k of
        Inl e \<Rightarrow> Inl e
      | Inr x \<Rightarrow> od_fill f kvs (od_set od v x))"

text \<open>\<^verbatim>\<open>for x in xs: acc.append(f(x))\<close>, where an exception of \<^verbatim>\<open>f(x)\<close> ends the
  loop and the method.\<close>

fun append_each :: "('a \<Rightarrow> pyexc + 'b) \<Rightarrow> 'a list \<Rightarrow> 'b list \<Rightarrow> pyexc + 'b list" where
  "append_each f [] acc = Inr acc"
| "append_each f (x # xs) acc =
     (case f x of
        Inl e \<Rightarrow> Inl e
      | Inr y \<Rightarrow> append_each f xs (acc @ [y]))"

text \<open>\<^verbatim>\<open>for x in xs: try: acc.append(f(x)) except Exception as e: print(...)\<close>\<close>

fun try_each ::
  "('a \<Rightarrow> pyexc + 'b) \<Rightarrow> ('a \<Rightarrow> pyexc \<Rightarrow> notice) \<Rightarrow> 'a list \<Rightarrow> 'b list \<Rightarrow> notice list \<Rightarrow>
   'b list \<times> notice list" where
  "try_each f pr [] acc out = (acc, out)"
| "try_each f pr (x # xs) acc out =
     (case f x of
        Inl e \<Rightarrow> try_each f pr xs acc (out @ [pr x e])
      | Inr y \<Rightarrow> try_each f pr xs (acc @ [y]) out)"

subsection \<open>get_pretty_props\<close>

text \<open>\<^verbatim>\<open>self.__dict__[k]\<close>: the three attributes set by the constructor.\<close>

definition self_dict :: "geodatabase \<Rightarrow> string \<Rightarrow> pyexc + string" where
  "self_dict g k =
     (if k = ''path'' then Inr (path g)
      else if k = ''release'' then Inr (release g)
      else if k = ''wkspc_type'' then Inr (wkspc_type g)
      else Inl KeyError)"

definition get_pretty_props :: "tables \<Rightarrow> state \<Rightarrow> (pyexc + string odict) \<times> state" where
  "get_pretty_props T s = (od_fill (self_dict (self s)) (GDB_PROPS T) [], s)"

subsection \<open>get_domains\<close>

text \<open>\<^verbatim>\<open>od = OrderedDict(); for k, v in PROPS.items(): od[v] = getattr(obj, k, '')\<close>\<close>

definition project :: "(string \<times> string) list \<Rightarrow> 'f attrs \<Rightarrow> pyexc + 'f pyval odict" where
  "project P obj = od_fill (\<lambda>k. getattr obj k (PStr [])) P []"

text \<open>\<^verbatim>\<open>_ogr_get_domains\<close>: a \<^verbatim>\<open>defaultdict(list)\<close> from root tag to the definitions
  with that tag, kept here in the order in which the tags are first met.\<close>

definition dd_append :: "(string \<times> 'a list) list \<Rightarrow> string \<Rightarrow> 'a \<Rightarrow> (string \<times> 'a list) list" where
  "dd_append d k x =
     (case map_of d k of
        None \<Rightarrow> d @ [(k, [x])]
      | Some xs \<Rightarrow> AList.update k (xs @ [x]) d)"

fun ogr_domains_loop ::
  "row list \<Rightarrow> (string \<times> xml list) list \<Rightarrow> pyexc + (string \<times> xml list) list" where
  "ogr_domains_loop [] d = Inr d"
| "ogr_domains_loop (None # rows) d = ogr_domains_loop rows d"
| "ogr_domains_loop (Some (Inl e) # rows) d = Inl e"
| "ogr_domains_loop (Some (Inr x) # rows) d =
     (if tag x = ''GPCodedValueDomain2'' \<or> tag x = ''GPRangeDomain2''
      then ogr_domains_loop rows (dd_append d (tag x) x)
      else ogr_domains_loop rows d)"

definition ogr_get_domains :: "'f ogr \<Rightarrow> string \<Rightarrow> pyexc + (string \<times> xml list) list" where
  "ogr_get_domains g p =
     (case execute_sql g p of
        Inl e \<Rightarrow> Inl e
      | Inr rows \<Rightarrow> ogr_domains_loop rows [])"

text \<open>\<^verbatim>\<open>try: od[v] = body except AttributeError: od[v] = ''\<close>\<close>

definition except_AttributeError :: "pyexc + 'f pyval \<Rightarrow> pyexc + 'f pyval" where
  "except_AttributeError r =
     (case r of
        Inl e \<Rightarrow> (if e = AttributeError then Inr (PStr []) else Inl e)
      | Inr v \<Rightarrow> Inr v)"

text \<open>\<^verbatim>\<open>float(x.text)\<close>: \<^verbatim>\<open>float(None)\<close> is a TypeError.\<close>

definition py_float :: "'f ogr \<Rightarrow> string option \<Rightarrow> pyexc + 'f" where
  "py_float g t = (case t of None \<Rightarrow> Inl TypeError | Some s \<Rightarrow> float g s)"

text \<open>The tuple of the range: the minimum is read and converted before the maximum is
  looked for.\<close>

definition range_body :: "'f ogr \<Rightarrow> xml \<Rightarrow> pyexc + 'f pyval" where
  "range_body g domain =
     (case text_of (xml_find domain ''MinValue'') of
        Inl e \<Rightarrow> Inl e
      | Inr tmin \<Rightarrow>
          (case py_float g tmin of
             Inl e \<Rightarrow> Inl e
           | Inr lo \<Rightarrow>
               (case text_of (xml_find domain ''MaxValue'') of
                  Inl e \<Rightarrow> Inl e
                | Inr tmax \<Rightarrow>
                    (case py_float g tmax of
                       Inl e \<Rightarrow> Inl e
                     | Inr hi \<Rightarrow> Inr (PRange lo hi)))))"

text \<open>The dictionary comprehension over the \<^verbatim>\<open>CodedValue\<close> children: a later
  entry with the same code replaces the earlier one.\<close>

fun coded_loop ::
  "xml list \<Rightarrow> (string option \<times> string option) list \<Rightarrow>
   pyexc + (string option \<times> string option) list" where
  "coded_loop [] d = Inr d"
| "coded_loop (cv # cvs) d =
     (case text_of (xml_find cv ''Code'') of
        Inl e \<Rightarrow> Inl e
      | Inr c \<Rightarrow>
          (case text_of (xml_find cv ''Name'') of
             Inl e \<Rightarrow> Inl e
           | Inr n \<Rightarrow> coded_loop cvs (AList.update c n d)))"

definition coded_body :: "xml \<Rightarrow> pyexc + 'f pyval" where
  "coded_body domain =
     (case xml_find domain ''CodedValues'' of
        None \<Rightarrow> Inl AttributeError
      | Some cvs \<Rightarrow>
          (case coded_loop (xml_findall cvs ''CodedValue'') [] of
             Inl e \<Rightarrow> Inl e
           | Inr d \<Rightarrow> Inr (PDict d)))"

definition plain_body :: "(string \<times> string) list \<Rightarrow> xml \<Rightarrow> string \<Rightarrow> pyexc + 'f pyval" where
  "plain_body M domain k =
     (case text_of (xml_find domain k) of
        Inl e \<Rightarrow> Inl e
      | Inr None \<Rightarrow> Inr (PStr [])
      | Inr (Some t) \<Rightarrow> (if t = [] then Inr (PStr []) else Inr (PStr (dict_get M t t))))"

text \<open>The value stored for one key of \<^verbatim>\<open>OGR_GDB_DOMAIN_PROPS\<close>.\<close>

definition domain_prop :: "'f ogr \<Rightarrow> tables \<Rightarrow> string \<Rightarrow> xml \<Rightarrow> string \<Rightarrow> pyexc + 'f pyval" where
  "domain_prop g T domain_type domain k =
     (if k = ''domainType'' then
        (case map_of (OGR_DOMAIN_PROPS_MAPPINGS T) domain_type of
           None \<Rightarrow> Inl KeyError
         | Some l \<Rightarrow> Inr (PStr l))
      else if k = ''range'' then except_AttributeError (range_body g domain)
      else if k = ''codedValues'' then except_AttributeError (coded_body domain)
      else except_AttributeError (plain_body (OGR_DOMAIN_PROPS_MAPPINGS T) domain k))"

definition domain_od :: "'f ogr \<Rightarrow> tables \<Rightarrow> string \<Rightarrow> xml \<Rightarrow> pyexc + 'f pyval odict" where
  "domain_od g T domain_type domain =
     od_fill (domain_prop g T domain_type domain) (OGR_GDB_DOMAIN_PROPS T) []"

text \<open>\<^verbatim>\<open>for domain_type, domains in gdb_domains.items(): for domain in domains: ...\<close>\<close>

fun domain_types_loop ::
  "'f ogr \<Rightarrow> tables \<Rightarrow> (string \<times> xml list) list \<Rightarrow> 'f pyval odict list \<Rightarrow>
   pyexc + 'f pyval odict list" where
  "domain_types_loop g T [] acc = Inr acc"
| "domain_types_loop g T ((domain_type, domains) # rest) acc =
     (case append_each (domain_od g T domain_type) domains acc of
        Inl e \<Rightarrow> Inl e
      | Inr acc' \<Rightarrow> domain_types_loop g T rest acc')"

definition get_domains ::
  "'f backend \<Rightarrow> tables \<Rightarrow> state \<Rightarrow> (pyexc + 'f pyval odict list) \<times> state" where
  "get_domains B T s =
     (case B of
        Arcpy a \<Rightarrow>
          (case da_ListDomains a (path (self s)) of
             Inl e \<Rightarrow> (Inl e, s)
           | Inr ds \<Rightarrow> (append_each (project (GDB_DOMAIN_PROPS T)) ds [], s))
      | Ogr g \<Rightarrow>
          (case ogr_get_domains g (path (self s)) of
             Inl e \<Rightarrow> (Inl e, s)
           | Inr gdb_domains \<Rightarrow> (domain_types_loop g T gdb_domains [], s)))"

subsection \<open>get_tables\<close>

text \<open>The body of the \<^verbatim>\<open>try\<close> for one table or, on the fallback path, one feature
  class: from the instance (or the exception of its construction) to the ordered
  dictionary with the row count added.\<close>

definition table_od ::
  "(string \<times> string) list \<Rightarrow> pyexc + 'f dataset_obj \<Rightarrow> pyexc + 'f pyval odict" where
  "table_od P inst =
     (case inst of
        Inl e \<Rightarrow> Inl e
      | Inr tbl_instance \<Rightarrow>
          (case project P (attr tbl_instance) of
             Inl e \<Rightarrow> Inl e
           | Inr od \<Rightarrow>
               (case get_row_count tbl_instance of
                  Inl e \<Rightarrow> Inl e
                | Inr n \<Rightarrow> Inr (od_set od ''Row count'' n))))"

text \<open>\<^verbatim>\<open>Table(arcpy.Describe(tbl).catalogPath)\<close>\<close>

definition arcpy_Table :: "'f arcpy \<Rightarrow> string \<Rightarrow> string \<Rightarrow> pyexc + 'f dataset_obj" where
  "arcpy_Table a ws tbl =
     (case Describe_catalogPath a ws tbl of
        Inl e \<Rightarrow> Inl e
      | Inr cp \<Rightarrow> Table a cp)"

text \<open>The names of the layers without, and with, a geometry column.\<close>

definition table_names :: "datasource \<Rightarrow> string list" where
  "table_names ds = map GetName (filter (\<lambda>l. GetGeometryColumn l = []) (layers ds))"

definition fcs_names :: "datasource \<Rightarrow> string list" where
  "fcs_names ds = map GetName (filter (\<lambda>l. GetGeometryColumn l \<noteq> []) (layers ds))"

definition get_tables ::
  "'f backend \<Rightarrow> tables \<Rightarrow> state \<Rightarrow> (pyexc + 'f pyval odict list) \<times> state" where
  "get_tables B T s =
     (case B of
        Arcpy a \<Rightarrow>
          (let s1 = s\<lparr>env_workspace := path (self s)\<rparr> in
           case ListTables a (env_workspace s1) of
             Inl e \<Rightarrow> (Inl e, s1)
           | Inr tbls \<Rightarrow>
               (case try_each (\<lambda>tbl. table_od (GDB_TABLE_PROPS T)
                                        (arcpy_Table a (env_workspace s1) tbl))
                       CouldNotReadTable tbls [] (stdout s1) of
                  (tables, out) \<Rightarrow> (Inr tables, s1\<lparr>stdout := out\<rparr>)))
      | Ogr g \<Rightarrow>
          (case Open g (path (self s)) of
             None \<Rightarrow> (Inl AttributeError, s)
           | Some ds \<Rightarrow>
               (case try_each (\<lambda>table_name. table_od (GDB_TABLE_PROPS T)
                                        (TableOgr g (path (self s)) table_name))
                       (\<lambda>table_name. Printed) (table_names ds) [] (stdout s) of
                  (tables, out) \<Rightarrow> (Inr tables, s\<lparr>stdout := out\<rparr>))))"

subsection \<open>get_feature_classes\<close>

text \<open>One feature class on the primary path, in the workspace \<open>ws\<close> and tagged with the
  dataset name \<open>fd\<close>. No \<^verbatim>\<open>try\<close> surrounds these statements.\<close>

definition fc_od_arcpy ::
  "'f arcpy \<Rightarrow> (string \<times> string) list \<Rightarrow> string \<Rightarrow> string \<Rightarrow> string \<Rightarrow>
   pyexc + 'f pyval odict" where
  "fc_od_arcpy a P ws fd fc =
     (case Describe_catalogPath a ws fc of
        Inl e \<Rightarrow> Inl e
      | Inr cp \<Rightarrow>
          (case FeatureClass a cp of
             Inl e \<Rightarrow> Inl e
           | Inr fc_instance \<Rightarrow>
               (case project P (attr fc_instance) of
                  Inl e \<Rightarrow> Inl e
                | Inr od \<Rightarrow>
                    (case get_row_count fc_instance of
                       Inl e \<Rightarrow> Inl e
                     | Inr n \<Rightarrow>
                         Inr (od_set (od_set od ''Row count'' n)
                                ''Feature dataset'' (PStr fd))))))"

text \<open>The loop over the feature datasets sets the workspace to each dataset in turn;
  the state carries the workspace left when the loop ends or raises.\<close>

fun fds_loop ::
  "'f arcpy \<Rightarrow> (string \<times> string) list \<Rightarrow> string list \<Rightarrow> 'f pyval odict list \<Rightarrow> state \<Rightarrow>
   (pyexc + 'f pyval odict list) \<times> state" where
  "fds_loop a P [] fcs s = (Inr fcs, s)"
| "fds_loop a P (fd # fds) fcs s =
     (let s1 = s\<lparr>env_workspace := os_path_join a (path (self s)) fd\<rparr> in
      case ListFeatureClasses a (env_workspace s1) of
        Inl e \<Rightarrow> (Inl e, s1)
      | Inr names \<Rightarrow>
          (case append_each (fc_od_arcpy a P (env_workspace s1) fd) names fcs of
             Inl e \<Rightarrow> (Inl e, s1)
           | Inr fcs' \<Rightarrow> fds_loop a P fds fcs' s1))"

definition get_feature_classes ::
  "'f backend \<Rightarrow> tables \<Rightarrow> state \<Rightarrow> (pyexc + 'f pyval odict list) \<times> state" where
  "get_feature_classes B T s =
     (case B of
        Arcpy a \<Rightarrow>
          (let s1 = s\<lparr>env_workspace := path (self s)\<rparr> in
           case ListDatasets a (env_workspace s1) of
             Inl e \<Rightarrow> (Inl e, s1)
           | Inr fds \<Rightarrow>
               (case (if fds \<noteq> [] then fds_loop a (GDB_FC_PROPS T) fds [] s1
                      else (Inr [], s1)) of
                  (Inl e, s2) \<Rightarrow> (Inl e, s2)
                | (Inr fcs, s2) \<Rightarrow>
                    (let s3 = s2\<lparr>env_workspace := path (self s2)\<rparr> in
                     case ListFeatureClasses a (env_workspace s3) of
                       Inl e \<Rightarrow> (Inl e, s3)
                     | Inr names \<Rightarrow>
                         (append_each (fc_od_arcpy a (GDB_FC_PROPS T) (env_workspace s3) [])
                            names fcs,
                          s3))))
      | Ogr g \<Rightarrow>
          (case Open g (path (self s)) of
             None \<Rightarrow> (Inl AttributeError, s)
           | Some ds \<Rightarrow>
               (case try_each (\<lambda>fc_name. table_od (GDB_FC_PROPS T)
                                        (FeatureClassOgr g (path (self s)) fc_name))
                       (\<lambda>fc_name. Printed) (fcs_names ds) [] (stdout s) of
                  (fcs, out) \<Rightarrow> (Inr fcs, s\<lparr>stdout := out\<rparr>))))"

section \<open>Notions used to state the properties\<close>

text \<open>The keys an ordered dictionary gets when it is filled through a label table
  starting from the keys \<open>ks\<close>: the labels in table order, a repeated label counted at
  its first place.\<close>

fun label_keys :: "(string \<times> string) list \<Rightarrow> string list \<Rightarrow> string list" where
  "label_keys [] ks = ks"
| "label_keys ((k, v) # kvs) ks = label_keys kvs (if v \<in> set ks then ks else ks @ [v])"


text \<open>The domains of a scan result paired with their root tag, in the order in which
  \<^verbatim>\<open>get_domains\<close> visits them.\<close>

definition domain_items :: "(string \<times> xml list) list \<Rightarrow> (string \<times> xml) list" where
  "domain_items gd = concat (map (\<lambda>(domain_type, domains). map (Pair domain_type) domains) gd)"

text \<open>The coded values of a domain definition as the XML has them: the texts of the
  \<^verbatim>\<open>Code\<close> and \<^verbatim>\<open>Name\<close> children of every \<^verbatim>\<open>CodedValue\<close>, in document order;
  \<open>None\<close> when the \<^verbatim>\<open>CodedValues\<close> element or one of those children is missing.\<close>

definition coded_pair :: "xml \<Rightarrow> (string option \<times> string option) option" where
  "coded_pair cv =
     (case xml_find cv ''Code'' of
        None \<Rightarrow> None
      | Some c \<Rightarrow>
          (case xml_find cv ''Name'' of
             None \<Rightarrow> None
           | Some n \<Rightarrow> Some (elem_text c, elem_text n)))"

definition source_coded_values :: "xml \<Rightarrow> (string option \<times> string option) list option" where
  "source_coded_values domain =
     (case xml_find domain ''CodedValues'' of
        None \<Rightarrow> None
      | Some cvs \<Rightarrow> those (map coded_pair (xml_findall cvs ''CodedValue'')))"

text \<open>A bound of a range definition that is present has a text that \<^verbatim>\<open>float\<close>
  accepts.\<close>

definition bound_ok :: "'f ogr \<Rightarrow> xml \<Rightarrow> string \<Rightarrow> bool" where
  "bound_ok g domain b =
     (case xml_find domain b of
        None \<Rightarrow> True
      | Some e \<Rightarrow> (case py_float g (elem_text e) of Inl err \<Rightarrow> False | Inr x \<Rightarrow> True))"

text \<open>The sub-elements that the property \<open>k\<close> of a domain is read from are not all
  there: the element named \<open>k\<close> itself, one of the two bounds for the range, the
  \<^verbatim>\<open>CodedValues\<close> element or a \<^verbatim>\<open>Code\<close> or \<^verbatim>\<open>Name\<close> for the coded values.\<close>

definition sub_element_missing :: "xml \<Rightarrow> string \<Rightarrow> bool" where
  "sub_element_missing domain k =
     (if k = ''domainType'' then False
      else if k = ''range''
        then xml_find domain ''MinValue'' = None \<or> xml_find domain ''MaxValue'' = None
      else if k = ''codedValues'' then source_coded_values domain = None
      else xml_find domain k = None)"

text \<open>Every group of a scan result is keyed by one of the two domain tags and holds
  definitions with that root tag only.\<close>

definition tagged_groups :: "(string \<times> xml list) list \<Rightarrow> bool" where
  "tagged_groups d \<longleftrightarrow>
     (\<forall>t xs. (t, xs) \<in> set d \<longrightarrow>
        (t = ''GPCodedValueDomain2'' \<or> t = ''GPRangeDomain2'') \<and> (\<forall>x\<in>set xs. tag x = t))"

text \<open>Two backends of the same kind give the same answers about the path \<open>p\<close>.\<close>

fun same_answers :: "'f backend \<Rightarrow> 'f backend \<Rightarrow> string \<Rightarrow> bool" where
  "same_answers (Arcpy a) (Arcpy b) p =
     (Describe_release a p = Describe_release b p \<and>
      Describe_workspaceFactoryProgID a p = Describe_workspaceFactoryProgID b p)"
| "same_answers (Ogr g) (Ogr h) p = (Open g p = Open h p)"
| "same_answers (Arcpy a) (Ogr h) p = False"
| "same_answers (Ogr g) (Arcpy b) p = False"


section \<open>A small geodatabase\<close>

text \<open>
  The geodatabase \<^verbatim>\<open>a.gdb\<close> holds the feature dataset \<^verbatim>\<open>transport\<close> with the
  feature class \<^verbatim>\<open>roads\<close>, the root feature class \<^verbatim>\<open>parcels\<close>, the table
  \<^verbatim>\<open>owners\<close>, an unreadable table \<^verbatim>\<open>broken\<close>, a coded-value domain and a range
  domain. The geodatabase \<^verbatim>\<open>b.gdb\<close> holds two root feature classes, the first of them
  unreadable, and a range domain stored with its bounds the wrong way round.
\<close>

definition ex_tables :: tables where
  "ex_tables =
     \<lparr>GDB_RELEASE = [(''3,0,0'', ''10.0'')],
      GDB_WKSPC_TYPE = [(''AccessWorkspace'', ''Personal geodatabase''),
                        (''FileGDB'', ''File geodatabase'')],
      GDB_PROPS = [(''path'', ''Path''), (''release'', ''Release''),
                   (''wkspc_type'', ''Workspace type'')],
      GDB_DOMAIN_PROPS = [(''name'', ''Name''), (''domainType'', ''Domain type''),
                          (''codedValues'', ''Coded values''), (''range'', ''Range'')],
      GDB_TABLE_PROPS = [(''name'', ''Name'')],
      GDB_FC_PROPS = [(''name'', ''Name'')],
      OGR_GDB_DOMAIN_PROPS = [(''DomainName'', ''Name''), (''domainType'', ''Domain type''),
                              (''codedValues'', ''Coded values''), (''range'', ''Range'')],
      OGR_DOMAIN_PROPS_MAPPINGS = [(''GPCodedValueDomain2'', ''CodedValue''),
                                   (''GPRangeDomain2'', ''Range'')]\<rparr>"

definition ex_instance :: "string \<Rightarrow> int \<Rightarrow> int dataset_obj" where
  "ex_instance nm n =
     \<lparr>attr = (\<lambda>k. if k = ''name'' then Inr (PStr nm) else Inl AttributeError),
      get_row_count = Inr (PInt n)\<rparr>"

definition ex_domain :: "int attrs" where
  "ex_domain =
     (\<lambda>k. if k = ''name'' then Inr (PStr ''Kind'')
          else if k = ''domainType'' then Inr (PStr ''CodedValue'')
          else Inl AttributeError)"

definition ex_arcpy :: "int arcpy" where
  "ex_arcpy =
     \<lparr>da_ListDomains = (\<lambda>p. Inr [ex_domain]),
      ListTables = (\<lambda>ws. Inr [''broken'', ''owners'']),
      ListDatasets = (\<lambda>ws. if ws = ''a.gdb'' then Inr [''transport''] else Inr []),
      ListFeatureClasses =
        (\<lambda>ws. if ws = ''a.gdb/transport'' then Inr [''roads'']
              else if ws = ''a.gdb'' then Inr [''parcels'']
              else Inr [''damaged'', ''lots'']),
      Describe_catalogPath = (\<lambda>ws nm. Inr (ws @ ''/'' @ nm)),
      Describe_release = (\<lambda>p. Inr ''3,0,0''),
      Describe_workspaceFactoryProgID =
        (\<lambda>p. Inr ''esriDataSourcesGDB.FileGDBWorkspaceFactory.1''),
      os_path_join = (\<lambda>p q. p @ ''/'' @ q),
      Table =
        (\<lambda>cp. if cp = ''a.gdb/broken'' then Inl (BackendError ''corrupt'')
              else Inr (ex_instance cp 2)),
      FeatureClass =
        (\<lambda>cp. if cp = ''b.gdb/damaged'' then Inl (BackendError ''corrupt'')
              else Inr (ex_instance cp 5))\<rparr>"

definition ex_coded :: xml where
  "ex_coded =
     Element ''GPCodedValueDomain2'' None
       [Element ''DomainName'' (Some ''Kind'') [],
        Element ''CodedValues'' None
          [Element ''CodedValue'' None
             [Element ''Name'' (Some ''Road'') [], Element ''Code'' (Some ''1'') []],
           Element ''CodedValue'' None
             [Element ''Name'' (Some ''Path'') [], Element ''Code'' (Some ''2'') []]]]"

definition ex_range :: xml where
  "ex_range =
     Element ''GPRangeDomain2'' None
       [Element ''DomainName'' (Some ''Speed'') [],
        Element ''MinValue'' (Some ''1'') [],
        Element ''MaxValue'' (Some ''5'') []]"

definition ex_reversed :: xml where
  "ex_reversed =
     Element ''GPRangeDomain2'' None
       [Element ''MinValue'' (Some ''5'') [],
        Element ''MaxValue'' (Some ''1'') []]"

definition ex_workspace :: xml where
  "ex_workspace =
     Element ''DEWorkspace'' None
       [Element ''MajorVersion'' (Some ''3'') [],
        Element ''MinorVersion'' (Some ''0'') [],
        Element ''BugfixVersion'' (Some ''0'') []]"

definition ex_ds :: datasource where
  "ex_ds =
     \<lparr>layers = [\<lparr>GetName = ''roads'', GetGeometryColumn = ''SHAPE''\<rparr>,
                \<lparr>GetName = ''broken'', GetGeometryColumn = []\<rparr>,
                \<lparr>GetName = ''parcels'', GetGeometryColumn = ''SHAPE''\<rparr>,
                \<lparr>GetName = ''owners'', GetGeometryColumn = []\<rparr>],
      GDB_Items = Inr [None, Some (Inr ex_workspace), Some (Inr ex_coded),
                       Some (Inr (Element ''DETable'' None [])), Some (Inr ex_range)]\<rparr>"

definition ex_ds_b :: datasource where
  "ex_ds_b =
     \<lparr>layers = [\<lparr>GetName = ''damaged'', GetGeometryColumn = ''SHAPE''\<rparr>,
                \<lparr>GetName = ''lots'', GetGeometryColumn = ''SHAPE''\<rparr>],
      GDB_Items = Inr [Some (Inr ex_workspace), Some (Inr ex_reversed)]\<rparr>"

text \<open>Python's \<^verbatim>\<open>float\<close> on the two texts that occur in the examples.\<close>

definition ex_float :: "string \<Rightarrow> pyexc + int" where
  "ex_float t = (if t = ''1'' then Inr 1 else if t = ''5'' then Inr 5 else Inl ValueError)"

definition ex_ogr :: "int ogr" where
  "ex_ogr =
     \<lparr>Open = (\<lambda>p. if p = ''a.gdb'' then Some ex_ds
                  else if p = ''b.gdb'' then Some ex_ds_b else None),
      TableOgr =
        (\<lambda>p nm. if nm = ''broken'' then Inl (BackendError ''corrupt'')
                else Inr (ex_instance nm 2)),
      FeatureClassOgr =
        (\<lambda>p nm. if nm = ''damaged'' then Inl (BackendError ''corrupt'')
                else Inr (ex_instance nm 5)),
      float = ex_float\<rparr>"

definition ex_state :: "string \<Rightarrow> state" where
  "ex_state p =
     \<lparr>self = \<lparr>path = p, release = ''10.0'', wkspc_type = ''File geodatabase''\<rparr>,
      env_workspace = [], stdout = []\<rparr>"

section \<open>Ordered dictionaries filled through a label table\<close>

lemma od_keys_od_set:
  "od_keys (od_set od k v) = (if k \<in> set (od_keys od) then od_keys od else od_keys od @ [k])"
  by (simp add: od_keys_def od_set_def update_keys)

lemma od_get_od_set: "od_get (od_set od k v) k' = (if k' = k then Some v else od_get od k')"
  by (simp add: od_get_def od_set_def update_conv')

lemma od_get_None_iff: "od_get od k = None \<longleftrightarrow> k \<notin> set (od_keys od)"
  by (simp add: od_get_def od_keys_def map_of_eq_None_iff)

lemma od_fill_keys:
  "od_fill f P od = Inr od' \<Longrightarrow> od_keys od' = label_keys P (od_keys od)"
proof (induction P arbitrary: od)
  case Nil
  then show ?case by simp
next
  case (Cons kv P)
  obtain k v where kv: "kv = (k, v)" by (cases kv)
  from Cons.prems kv obtain x where x: "f k = Inr x"
    and rest: "od_fill f P (od_set od v x) = Inr od'"
    by (auto split: sum.splits)
  from Cons.IH [OF rest] show ?case
    by (simp add: kv od_keys_od_set)
qed

lemma label_keys_append:
  "distinct (ks @ map snd P) \<Longrightarrow> label_keys P ks = ks @ map snd P"
  by (induction P arbitrary: ks) auto

lemma label_keys_distinct: "distinct (map snd P) \<Longrightarrow> label_keys P [] = map snd P"
  using label_keys_append [of "[]" P] by simp

lemma set_label_keys: "set (label_keys P ks) = set ks \<union> snd ` set P"
proof (induction P arbitrary: ks)
  case Nil
  then show ?case by simp
next
  case (Cons kv P)
  obtain k v where kv: "kv = (k, v)" by (cases kv)
  show ?case by (auto simp: kv Cons.IH)
qed

lemma od_fill_get_other:
  "od_fill f P od = Inr od' \<Longrightarrow> l \<notin> snd ` set P \<Longrightarrow> od_get od' l = od_get od l"
proof (induction P arbitrary: od)
  case Nil
  then show ?case by simp
next
  case (Cons kv P)
  obtain k v where kv: "kv = (k, v)" by (cases kv)
  from Cons.prems kv obtain x where x: "f k = Inr x"
    and rest: "od_fill f P (od_set od v x) = Inr od'"
    by (auto split: sum.splits)
  from Cons.prems(2) kv have "l \<noteq> v" "l \<notin> snd ` set P" by auto
  with Cons.IH [OF rest] show ?case by (simp add: od_get_od_set)
qed

lemma od_fill_get:
  "od_fill f P od = Inr od' \<Longrightarrow> distinct (map snd P) \<Longrightarrow> (k, v) \<in> set P \<Longrightarrow>
   \<exists>x. f k = Inr x \<and> od_get od' v = Some x"
proof (induction P arbitrary: od)
  case Nil
  then show ?case by simp
next
  case (Cons kv P)
  obtain k' v' where kv: "kv = (k', v')" by (cases kv)
  from Cons.prems kv obtain x where x: "f k' = Inr x"
    and rest: "od_fill f P (od_set od v' x) = Inr od'"
    by (auto split: sum.splits)
  from Cons.prems(2) kv have d: "distinct (map snd P)" and nin: "v' \<notin> snd ` set P" by auto
  show ?case
  proof (cases "(k, v) \<in> set P")
    case True
    from Cons.IH [OF rest d True] show ?thesis .
  next
    case False
    with Cons.prems(3) kv have eq: "k = k'" "v = v'" by auto
    from od_fill_get_other [OF rest nin] have "od_get od' v' = Some x"
      by (simp add: od_get_od_set)
    with x eq show ?thesis by simp
  qed
qed

lemma od_fill_total:
  "(\<And>k v. (k, v) \<in> set P \<Longrightarrow> \<exists>x. f k = Inr x) \<Longrightarrow> \<exists>od'. od_fill f P od = Inr od'"
proof (induction P arbitrary: od)
  case Nil
  then show ?case by simp
next
  case (Cons kv P)
  obtain k v where kv: "kv = (k, v)" by (cases kv)
  from Cons.prems [of k v] kv obtain x where x: "f k = Inr x" by auto
  have "\<exists>od'. od_fill f P (od_set od v x) = Inr od'"
    by (rule Cons.IH) (use Cons.prems in auto)
  with x kv show ?case by simp
qed


section \<open>The two list loops\<close>

lemma append_each_iff:
  "append_each f xs acc = Inr r \<longleftrightarrow> (\<exists>ys. list_all2 (\<lambda>x y. f x = Inr y) xs ys \<and> r = acc @ ys)"
proof (induction xs arbitrary: acc)
  case Nil
  then show ?case by auto
next
  case (Cons x xs)
  show ?case
  proof (cases "f x")
    case (Inl e)
    then show ?thesis by (auto simp: list_all2_Cons1)
  next
    case (Inr y)
    then show ?thesis by (auto simp: Cons.IH list_all2_Cons1)
  qed
qed

lemma append_each_mem:
  "append_each f xs acc = Inr r \<Longrightarrow> y \<in> set r \<Longrightarrow> y \<in> set acc \<or> (\<exists>x\<in>set xs. f x = Inr y)"
proof (induction xs arbitrary: acc)
  case Nil
  then show ?case by simp
next
  case (Cons x xs)
  from Cons.prems(1) obtain z where z: "f x = Inr z"
    and rest: "append_each f xs (acc @ [z]) = Inr r"
    by (auto split: sum.splits)
  from Cons.IH [OF rest Cons.prems(2)] z show ?case by auto
qed

lemma try_each_fst:
  "fst (try_each f pr xs acc out) =
     acc @ List.map_filter (\<lambda>x. case f x of Inl e \<Rightarrow> None | Inr y \<Rightarrow> Some y) xs"
  by (induction xs arbitrary: acc out) (auto simp: map_filter_simps split: sum.splits)

lemma try_each_snd:
  "snd (try_each f pr xs acc out) =
     out @ List.map_filter (\<lambda>x. case f x of Inl e \<Rightarrow> Some (pr x e) | Inr y \<Rightarrow> None) xs"
  by (induction xs arbitrary: acc out) (auto simp: map_filter_simps split: sum.splits)

lemma try_each_mem:
  "y \<in> set (fst (try_each f pr xs [] out)) \<Longrightarrow> \<exists>x\<in>set xs. f x = Inr y"
  by (auto simp: try_each_fst map_filter_def split: sum.splits)

section \<open>Keys and frame of the methods\<close>

lemma project_keys: "project P obj = Inr od \<Longrightarrow> od_keys od = label_keys P []"
  unfolding project_def using od_fill_keys [of _ P "[]" od] by (simp add: od_keys_def)

lemma label_keys_snoc:
  "label_keys (P @ [(k, v)]) ks =
     (if v \<in> set (label_keys P ks) then label_keys P ks else label_keys P ks @ [v])"
  by (induction P arbitrary: ks) auto

lemma table_od_keys:
  "table_od P inst = Inr od \<Longrightarrow>
   od_keys od = label_keys (P @ [(k, ''Row count'')]) []"
  by (auto simp: table_od_def label_keys_snoc od_keys_od_set project_keys split: sum.splits)

lemma fc_od_arcpy_keys:
  "fc_od_arcpy a P ws fd fc = Inr od \<Longrightarrow>
   od_keys od = label_keys (P @ [(k, ''Row count''), (k', ''Feature dataset'')]) []"
  using label_keys_snoc [of "P @ [(k, ''Row count'')]" k' "''Feature dataset''" "[]"]
  by (auto simp: fc_od_arcpy_def label_keys_snoc od_keys_od_set project_keys split: sum.splits)

lemma fc_od_arcpy_tag:
  "fc_od_arcpy a P ws fd fc = Inr od \<Longrightarrow> od_get od ''Feature dataset'' = Some (PStr fd)"
  by (auto simp: fc_od_arcpy_def od_get_od_set split: sum.splits)

lemma fds_loop_self: "self (snd (fds_loop a P fds fcs s)) = self s"
  by (induction fds arbitrary: fcs s) (auto simp: Let_def split: sum.splits)

lemma fds_loop_stdout: "stdout (snd (fds_loop a P fds fcs s)) = stdout s"
  by (induction fds arbitrary: fcs s) (auto simp: Let_def split: sum.splits)

lemma get_pretty_props_frame: "snd (get_pretty_props T s) = s"
  by (simp add: get_pretty_props_def)

lemma get_domains_frame: "snd (get_domains B T s) = s"
  by (auto simp: get_domains_def split: backend.splits sum.splits)

lemma get_tables_self: "self (snd (get_tables B T s)) = self s"
  by (auto simp: get_tables_def Let_def split: backend.splits sum.splits option.splits prod.splits)

lemma get_feature_classes_self: "self (snd (get_feature_classes B T s)) = self s"
proof (cases B)
  case (Arcpy a)
  have "self s' = self s" if "fds_loop a P fds [] (s\<lparr>env_workspace := w\<rparr>) = (r, s')"
    for P fds w r s'
    using fds_loop_self [of a P fds "[]" "s\<lparr>env_workspace := w\<rparr>"] that by simp
  then show ?thesis using Arcpy
    by (auto simp: get_feature_classes_def Let_def
        split: sum.splits option.splits prod.splits if_splits)
next
  case (Ogr g)
  then show ?thesis
    by (auto simp: get_feature_classes_def split: option.splits prod.splits)
qed

lemma wkspc_matches_cong: "d p = d' p \<Longrightarrow> wkspc_matches d p kvs = wkspc_matches d' p kvs"
  by (induction kvs) (auto split: sum.splits)

section \<open>Construction and frame\<close>

lemmas ex_defs = ex_tables_def ex_instance_def ex_domain_def ex_arcpy_def ex_coded_def
  ex_range_def ex_reversed_def ex_workspace_def ex_ds_def ex_ds_b_def ex_float_def ex_ogr_def
  ex_state_def

text \<open>
  Claim C10. When the proprietary backend is unavailable, the workspace type resolved at
  construction is the constant string \<^verbatim>\<open>File geodatabase\<close>, whatever the path and
  whatever the container behind it.
\<close>

theorem get_wkspc_type_fallback:
  "arcpy_found (Ogr g) = False \<and> get_wkspc_type (Ogr g) T p = Inr ''File geodatabase''"
  by (simp add: get_wkspc_type_def)

lemma init_same_answers: "same_answers B1 B2 p \<Longrightarrow> init B1 T p = init B2 T p"
proof (cases B1; cases B2)
  fix a b assume B: "B1 = Arcpy a" "B2 = Arcpy b" and sa: "same_answers B1 B2 p"
  then have r: "Describe_release a p = Describe_release b p"
    and w: "Describe_workspaceFactoryProgID a p = Describe_workspaceFactoryProgID b p"
    by simp_all
  have gr: "get_release B1 T p = get_release B2 T p"
    by (simp add: B get_release_def r)
  have gw: "get_wkspc_type B1 T p = get_wkspc_type B2 T p"
    by (simp add: B get_wkspc_type_def
        wkspc_matches_cong [of "Describe_workspaceFactoryProgID a" p
          "Describe_workspaceFactoryProgID b", OF w])
  show ?thesis unfolding init_def gr gw ..
next
  fix g h assume B: "B1 = Ogr g" "B2 = Ogr h" and sa: "same_answers B1 B2 p"
  then have o: "Open g p = Open h p" by simp
  have gr: "get_release B1 T p = get_release B2 T p"
    by (simp add: B get_release_def ogr_get_gdb_metadata_def execute_sql_def o)
  have gw: "get_wkspc_type B1 T p = get_wkspc_type B2 T p"
    by (simp add: B get_wkspc_type_def)
  show ?thesis unfolding init_def gr gw ..
qed simp_all

text \<open>
  Claim C8. Two constructions on the same path, with the same kind of backend giving the
  same answers about that path, end alike, and when they return an object the two
  objects have the same release and the same workspace type.
\<close>

theorem init_deterministic:
  "same_answers B1 B2 p \<Longrightarrow>
   init B1 T p = init B2 T p \<and>
   (\<forall>g1 g2. init B1 T p = Inr g1 \<and> init B2 T p = Inr g2 \<longrightarrow>
      release g1 = release g2 \<and> wkspc_type g1 = wkspc_type g2)"
  using init_same_answers [of B1 B2 p T] by auto

theorem init_deterministic_witness:
  "same_answers (Ogr ex_ogr) (Ogr (ex_ogr\<lparr>float := \<lambda>t. Inl ValueError\<rparr>)) ''a.gdb'' \<and>
   init (Ogr (ex_ogr\<lparr>float := \<lambda>t. Inl ValueError\<rparr>)) ex_tables ''a.gdb'' =
     init (Ogr ex_ogr) ex_tables ''a.gdb'' \<and>
   init (Ogr ex_ogr) ex_tables ''a.gdb'' =
     Inr \<lparr>path = ''a.gdb'', release = ''10.0'', wkspc_type = ''File geodatabase''\<rparr>"
proof -
  have h: "same_answers (Ogr ex_ogr) (Ogr (ex_ogr\<lparr>float := \<lambda>t. Inl ValueError\<rparr>)) ''a.gdb''"
    by (simp add: ex_ogr_def)
  have v: "init (Ogr ex_ogr) ex_tables ''a.gdb'' =
     Inr \<lparr>path = ''a.gdb'', release = ''10.0'', wkspc_type = ''File geodatabase''\<rparr>"
    by (simp add: init_def get_release_def get_wkspc_type_def ogr_get_gdb_metadata_def
        execute_sql_def ex_defs xml_find_def text_of_def join3_def dict_get_def)
  from init_deterministic [OF h, of ex_tables] h v show ?thesis by simp
qed

text \<open>
  Claim C9. No query method changes the attributes of the object: each of the four
  methods leaves \<open>self\<close> as it found it. \<^verbatim>\<open>get_pretty_props\<close> changes nothing at all;
  it returns whenever every key of \<^verbatim>\<open>GDB_PROPS\<close> names one of the three attributes,
  and its result has the labels of the table as keys, in table order, each label (when
  the labels are distinct) holding the attribute that its key names.
\<close>

theorem query_methods_frame:
  "snd (get_pretty_props T s) = s \<and>
   self (snd (get_domains B T s)) = self s \<and>
   self (snd (get_tables B T s)) = self s \<and>
   self (snd (get_feature_classes B T s)) = self s \<and>
   (set (map fst (GDB_PROPS T)) \<subseteq> {''path'', ''release'', ''wkspc_type''} \<longrightarrow>
      (\<exists>od. fst (get_pretty_props T s) = Inr od)) \<and>
   (\<forall>od. fst (get_pretty_props T s) = Inr od \<longrightarrow>
      od_keys od = label_keys (GDB_PROPS T) [] \<and>
      (distinct (map snd (GDB_PROPS T)) \<longrightarrow>
         (\<forall>k v. (k, v) \<in> set (GDB_PROPS T) \<longrightarrow>
            (\<exists>x. self_dict (self s) k = Inr x \<and> od_get od v = Some x))))"
proof -
  have total: "\<exists>od. fst (get_pretty_props T s) = Inr od"
    if sub: "set (map fst (GDB_PROPS T)) \<subseteq> {''path'', ''release'', ''wkspc_type''}"
  proof -
    have "\<exists>x. self_dict (self s) k = Inr x" if "(k, v) \<in> set (GDB_PROPS T)" for k v
    proof -
      from that have "k \<in> set (map fst (GDB_PROPS T))" by force
      with sub have "k \<in> {''path'', ''release'', ''wkspc_type''}" by blast
      then show ?thesis by (auto simp: self_dict_def)
    qed
    from od_fill_total [of "GDB_PROPS T" "self_dict (self s)" "[]", OF this]
    show ?thesis by (simp add: get_pretty_props_def)
  qed
  have keys: "od_keys od = label_keys (GDB_PROPS T) []"
    if "fst (get_pretty_props T s) = Inr od" for od
    using od_fill_keys [of "self_dict (self s)" "GDB_PROPS T" "[]" od] that
    by (simp add: get_pretty_props_def od_keys_def)
  have vals: "\<exists>x. self_dict (self s) k = Inr x \<and> od_get od v = Some x"
    if "fst (get_pretty_props T s) = Inr od" "distinct (map snd (GDB_PROPS T))"
      "(k, v) \<in> set (GDB_PROPS T)" for od k v
    using od_fill_get [of "self_dict (self s)" "GDB_PROPS T" "[]" od k v] that
    by (simp add: get_pretty_props_def)
  show ?thesis
    using total keys vals
    by (simp add: get_pretty_props_frame get_domains_frame get_tables_self
        get_feature_classes_self)
qed

theorem query_methods_frame_witness:
  "set (map fst (GDB_PROPS ex_tables)) \<subseteq> {''path'', ''release'', ''wkspc_type''} \<and>
   distinct (map snd (GDB_PROPS ex_tables)) \<and>
   (''release'', ''Release'') \<in> set (GDB_PROPS ex_tables) \<and>
   fst (get_pretty_props ex_tables (ex_state ''a.gdb'')) =
     Inr [(''Path'', ''a.gdb''), (''Release'', ''10.0''),
          (''Workspace type'', ''File geodatabase'')] \<and>
   snd (get_pretty_props ex_tables (ex_state ''a.gdb'')) = ex_state ''a.gdb'' \<and>
   self (snd (get_tables (Arcpy ex_arcpy) ex_tables (ex_state ''a.gdb''))) =
     self (ex_state ''a.gdb'') \<and>
   env_workspace (snd (get_tables (Arcpy ex_arcpy) ex_tables (ex_state ''a.gdb''))) \<noteq>
     env_workspace (ex_state ''a.gdb'')"
proof -
  have v: "fst (get_pretty_props ex_tables (ex_state ''a.gdb'')) =
     Inr [(''Path'', ''a.gdb''), (''Release'', ''10.0''),
          (''Workspace type'', ''File geodatabase'')]"
    by (simp add: get_pretty_props_def ex_tables_def ex_state_def self_dict_def od_set_def)
  have w: "env_workspace (snd (get_tables (Arcpy ex_arcpy) ex_tables (ex_state ''a.gdb''))) \<noteq>
     env_workspace (ex_state ''a.gdb'')"
    by (simp add: get_tables_def ex_arcpy_def ex_state_def Let_def split: prod.splits)
  from query_methods_frame [of ex_tables "ex_state ''a.gdb''" "Arcpy ex_arcpy"] v w
  show ?thesis by (simp add: ex_tables_def)
qed

section \<open>The scan of the catalog and the domain loops\<close>

lemma set_AList_update:
  "kv \<in> set (AList.update k v al) \<Longrightarrow> kv = (k, v) \<or> kv \<in> set al"
  by (induction al) (auto split: if_splits)



lemma set_dd_append:
  "(t, xs) \<in> set (dd_append d k x) \<Longrightarrow>
   (t, xs) \<in> set d \<or> (t = k \<and> (\<exists>ys. xs = ys @ [x] \<and> (ys = [] \<or> (k, ys) \<in> set d)))"
  by (auto simp: dd_append_def split: option.splits dest!: set_AList_update map_of_SomeD)

lemma tagged_groups_dd_append:
  "tagged_groups d \<Longrightarrow> tag x = ''GPCodedValueDomain2'' \<or> tag x = ''GPRangeDomain2'' \<Longrightarrow>
   tagged_groups (dd_append d (tag x) x)"
  unfolding tagged_groups_def
  by (fastforce dest!: set_dd_append)

lemma ogr_domains_loop_tagged:
  "ogr_domains_loop rows d = Inr gd \<Longrightarrow> tagged_groups d \<Longrightarrow> tagged_groups gd"
  by (induction rows d rule: ogr_domains_loop.induct)
     (auto simp: tagged_groups_dd_append split: if_splits)


lemma domain_items_tagged:
  "ogr_get_domains g p = Inr gd \<Longrightarrow> (dt, domain) \<in> set (domain_items gd) \<Longrightarrow>
   tag domain = dt \<and> (dt = ''GPCodedValueDomain2'' \<or> dt = ''GPRangeDomain2'')"
proof -
  assume a: "ogr_get_domains g p = Inr gd" and m: "(dt, domain) \<in> set (domain_items gd)"
  from a obtain rows where "ogr_domains_loop rows [] = Inr gd"
    by (auto simp: ogr_get_domains_def split: sum.splits)
  from ogr_domains_loop_tagged [OF this] have "tagged_groups gd"
    by (simp add: tagged_groups_def)
  with m show ?thesis
    by (fastforce simp: tagged_groups_def domain_items_def)
qed

lemma domain_items_Cons:
  "domain_items ((dt, ds) # rest) = map (Pair dt) ds @ domain_items rest"
  by (simp add: domain_items_def)

lemma domain_types_loop_iff:
  "domain_types_loop g T gd acc = Inr r \<longleftrightarrow>
     (\<exists>ods. list_all2 (\<lambda>(dt, domain) od. domain_od g T dt domain = Inr od)
              (domain_items gd) ods \<and> r = acc @ ods)"
proof (induction gd arbitrary: acc r)
  case Nil
  then show ?case by (auto simp: domain_items_def)
next
  case (Cons a gd)
  obtain dt ds where a: "a = (dt, ds)" by (cases a)
  show ?case
  proof
    assume "domain_types_loop g T (a # gd) acc = Inr r"
    then obtain acc' where 1: "append_each (domain_od g T dt) ds acc = Inr acc'"
      and 2: "domain_types_loop g T gd acc' = Inr r"
      by (auto simp: a split: sum.splits)
    from 1 obtain ys where ys: "list_all2 (\<lambda>x y. domain_od g T dt x = Inr y) ds ys"
      and acc': "acc' = acc @ ys" by (auto simp: append_each_iff)
    from 2 obtain zs where
      zs: "list_all2 (\<lambda>(dt, domain) od. domain_od g T dt domain = Inr od) (domain_items gd) zs"
      and r: "r = acc' @ zs" by (auto simp: Cons.IH)
    from ys have "list_all2 (\<lambda>(dt, domain) od. domain_od g T dt domain = Inr od)
        (map (Pair dt) ds) ys"
      by (simp add: list_all2_map1)
    with zs have "list_all2 (\<lambda>(dt, domain) od. domain_od g T dt domain = Inr od)
        (domain_items (a # gd)) (ys @ zs)"
      by (simp add: a domain_items_Cons list_all2_appendI)
    with r acc' show "\<exists>ods. list_all2 (\<lambda>(dt, domain) od. domain_od g T dt domain = Inr od)
              (domain_items (a # gd)) ods \<and> r = acc @ ods"
      by auto
  next
    assume "\<exists>ods. list_all2 (\<lambda>(dt, domain) od. domain_od g T dt domain = Inr od)
              (domain_items (a # gd)) ods \<and> r = acc @ ods"
    then obtain ods where
      l: "list_all2 (\<lambda>(dt, domain) od. domain_od g T dt domain = Inr od)
            (map (Pair dt) ds @ domain_items gd) ods"
      and r: "r = acc @ ods"
      by (auto simp: a domain_items_Cons)
    from l obtain ys zs where ods: "ods = ys @ zs"
      and ys: "list_all2 (\<lambda>(dt, domain) od. domain_od g T dt domain = Inr od)
            (map (Pair dt) ds) ys"
      and zs: "list_all2 (\<lambda>(dt, domain) od. domain_od g T dt domain = Inr od)
            (domain_items gd) zs"
      by (auto simp: list_all2_append1)
    from ys have "append_each (domain_od g T dt) ds acc = Inr (acc @ ys)"
      by (auto simp: append_each_iff list_all2_map1)
    moreover from zs have "domain_types_loop g T gd (acc @ ys) = Inr ((acc @ ys) @ zs)"
      by (subst Cons.IH) blast
    ultimately show "domain_types_loop g T (a # gd) acc = Inr r"
      by (simp add: a r ods)
  qed
qed

lemma get_domains_ogr_iff:
  "fst (get_domains (Ogr g) T s) = Inr ods \<longleftrightarrow>
     (\<exists>gd. ogr_get_domains g (path (self s)) = Inr gd \<and>
           list_all2 (\<lambda>(dt, domain) od. domain_od g T dt domain = Inr od)
             (domain_items gd) ods)"
  by (cases "ogr_get_domains g (path (self s))")
     (auto simp: get_domains_def domain_types_loop_iff)

lemma domain_od_keys:
  "domain_od g T dt domain = Inr od \<Longrightarrow> od_keys od = label_keys (OGR_GDB_DOMAIN_PROPS T) []"
  unfolding domain_od_def
  using od_fill_keys [of _ "OGR_GDB_DOMAIN_PROPS T" "[]" od] by (simp add: od_keys_def)

lemma domain_od_get:
  "domain_od g T dt domain = Inr od \<Longrightarrow> distinct (map snd (OGR_GDB_DOMAIN_PROPS T)) \<Longrightarrow>
   (k, v) \<in> set (OGR_GDB_DOMAIN_PROPS T) \<Longrightarrow>
   \<exists>x. domain_prop g T dt domain k = Inr x \<and> od_get od v = Some x"
  unfolding domain_od_def by (rule od_fill_get)

lemma coded_loop_eq:
  "coded_loop cvs d =
     (case those (map coded_pair cvs) of
        None \<Rightarrow> Inl AttributeError
      | Some pairs \<Rightarrow> Inr (fold (\<lambda>(c, n). AList.update c n) pairs d))"
proof (induction cvs arbitrary: d)
  case Nil
  then show ?case by simp
next
  case (Cons cv cvs)
  show ?case
    by (cases "xml_find cv ''Code''"; cases "xml_find cv ''Name''")
       (auto simp: coded_pair_def text_of_def Cons.IH split: option.splits)
qed



lemma coded_body_eq:
  "coded_body domain =
     (case source_coded_values domain of
        None \<Rightarrow> Inl AttributeError
      | Some pairs \<Rightarrow> Inr (PDict (fold (\<lambda>(c, n). AList.update c n) pairs [])))"
  by (auto simp: coded_body_def source_coded_values_def coded_loop_eq split: option.splits)

lemma domain_prop_coded:
  "domain_prop g T dt domain ''codedValues'' =
     (case source_coded_values domain of
        None \<Rightarrow> Inr (PStr [])
      | Some pairs \<Rightarrow> Inr (PDict (fold (\<lambda>(c, n). AList.update c n) pairs [])))"
  by (simp add: domain_prop_def coded_body_eq except_AttributeError_def split: option.splits)

lemma domain_prop_plain_missing:
  "k \<noteq> ''domainType'' \<Longrightarrow> k \<noteq> ''range'' \<Longrightarrow> k \<noteq> ''codedValues'' \<Longrightarrow>
   xml_find domain k = None \<Longrightarrow> domain_prop g T dt domain k = Inr (PStr [])"
  by (simp add: domain_prop_def plain_body_def text_of_def except_AttributeError_def)

lemma domain_prop_plain_total:
  "k \<noteq> ''domainType'' \<Longrightarrow> k \<noteq> ''range'' \<Longrightarrow> k \<noteq> ''codedValues'' \<Longrightarrow>
   \<exists>x. domain_prop g T dt domain k = Inr x"
  by (auto simp: domain_prop_def plain_body_def text_of_def except_AttributeError_def
      split: option.splits)

lemma domain_prop_range_absent:
  "xml_find domain ''MinValue'' = None \<Longrightarrow> domain_prop g T dt domain ''range'' = Inr (PStr [])"
  by (simp add: domain_prop_def range_body_def text_of_def except_AttributeError_def)

lemma domain_prop_range_max_absent:
  "xml_find domain ''MaxValue'' = None \<Longrightarrow> domain_prop g T dt domain ''range'' = Inr x \<Longrightarrow>
   x = PStr []"
  by (auto simp: domain_prop_def range_body_def text_of_def except_AttributeError_def
      split: option.splits sum.splits if_splits)

lemma domain_prop_range_present:
  "xml_find domain ''MinValue'' = Some mn \<Longrightarrow> xml_find domain ''MaxValue'' = Some mx \<Longrightarrow>
   py_float g (elem_text mn) = Inr lo \<Longrightarrow> py_float g (elem_text mx) = Inr hi \<Longrightarrow>
   domain_prop g T dt domain ''range'' = Inr (PRange lo hi)"
  by (simp add: domain_prop_def range_body_def text_of_def except_AttributeError_def)

lemma domain_prop_range_total:
  "bound_ok g domain ''MinValue'' \<Longrightarrow> bound_ok g domain ''MaxValue'' \<Longrightarrow>
   \<exists>x. domain_prop g T dt domain ''range'' = Inr x"
  by (auto simp: domain_prop_def range_body_def text_of_def except_AttributeError_def
      bound_ok_def split: option.splits sum.splits)

section \<open>The domains of the fallback path\<close>

lemmas eval_defs = get_domains_def ogr_get_domains_def execute_sql_def domain_od_def
  domain_prop_def range_body_def coded_body_def plain_body_def except_AttributeError_def
  py_float_def text_of_def xml_find_def xml_findall_def dict_get_def od_set_def dd_append_def
  od_get_def od_keys_def




lemma ex_get_domains_a:
  "fst (get_domains (Ogr ex_ogr) ex_tables (ex_state ''a.gdb'')) =
     Inr [[(''Name'', PStr ''Kind''), (''Domain type'', PStr ''CodedValue''),
           (''Coded values'', PDict [(Some ''1'', Some ''Road''), (Some ''2'', Some ''Path'')]),
           (''Range'', PStr [])],
          [(''Name'', PStr ''Speed''), (''Domain type'', PStr ''Range''),
           (''Coded values'', PStr []), (''Range'', PRange 1 5)]]"
  by (simp add: eval_defs ex_defs)

lemma ex_ogr_get_domains_a:
  "ogr_get_domains ex_ogr (path (self (ex_state ''a.gdb''))) =
     Inr [(''GPCodedValueDomain2'', [ex_coded]), (''GPRangeDomain2'', [ex_range])]"
  by (simp add: ogr_get_domains_def execute_sql_def dd_append_def ex_defs)


text \<open>
  Claim C5 as stated fails: in \<^verbatim>\<open>b.gdb\<close> the range domain is stored with the minimum
  5 and the maximum 1, both present, and \<^verbatim>\<open>get_domains\<close> returns the range (5, 1).
\<close>

theorem get_domains_range_counterexample:
  "fst (get_domains (Ogr ex_ogr) ex_tables (ex_state ''b.gdb'')) =
     Inr [[(''Name'', PStr []), (''Domain type'', PStr ''Range''),
           (''Coded values'', PStr []), (''Range'', PRange 5 1)]] \<and>
   xml_find ex_reversed ''MinValue'' = Some (Element ''MinValue'' (Some ''5'') []) \<and>
   xml_find ex_reversed ''MaxValue'' = Some (Element ''MaxValue'' (Some ''1'') []) \<and>
   \<not> (5::int) \<le> 1"
  by (simp add: eval_defs ex_defs)

text \<open>
  Claim C5, as amended. On the fallback path, whenever \<^verbatim>\<open>get_domains\<close> returns, the
  range field of a domain whose definition has both bounds is the pair of the floats of
  the two texts, minimum first, exactly as stored: the bounds are not compared. When
  either bound is absent the field is the empty string.
\<close>

theorem get_domains_range:
  assumes "fst (get_domains (Ogr g) T s) = Inr ods"
    and "distinct (map snd (OGR_GDB_DOMAIN_PROPS T))"
    and "(''range'', v) \<in> set (OGR_GDB_DOMAIN_PROPS T)"
  shows "\<exists>gd. ogr_get_domains g (path (self s)) = Inr gd \<and>
     list_all2
       (\<lambda>(dt, domain) od.
          case xml_find domain ''MinValue'' of
            None \<Rightarrow> od_get od v = Some (PStr [])
          | Some mn \<Rightarrow>
              (case xml_find domain ''MaxValue'' of
                 None \<Rightarrow> od_get od v = Some (PStr [])
               | Some mx \<Rightarrow>
                   (\<forall>lo hi. py_float g (elem_text mn) = Inr lo \<and>
                           py_float g (elem_text mx) = Inr hi \<longrightarrow>
                           od_get od v = Some (PRange lo hi))))
       (domain_items gd) ods"
proof -
  from assms(1) obtain gd where gd: "ogr_get_domains g (path (self s)) = Inr gd"
    and l: "list_all2 (\<lambda>(dt, domain) od. domain_od g T dt domain = Inr od)
              (domain_items gd) ods"
    unfolding get_domains_ogr_iff by blast
  have "list_all2
       (\<lambda>(dt, domain) od.
          case xml_find domain ''MinValue'' of
            None \<Rightarrow> od_get od v = Some (PStr [])
          | Some mn \<Rightarrow>
              (case xml_find domain ''MaxValue'' of
                 None \<Rightarrow> od_get od v = Some (PStr [])
               | Some mx \<Rightarrow>
                   (\<forall>lo hi. py_float g (elem_text mn) = Inr lo \<and>
                           py_float g (elem_text mx) = Inr hi \<longrightarrow>
                           od_get od v = Some (PRange lo hi))))
       (domain_items gd) ods"
  proof (rule list.rel_mono_strong [OF l])
    fix z od
    assume a: "(case z of (dt, domain) \<Rightarrow> \<lambda>od. domain_od g T dt domain = Inr od) od"
    obtain dt domain where z: "z = (dt, domain)" by (cases z)
    from a z have d: "domain_od g T dt domain = Inr od" by simp
    from domain_od_get [OF d assms(2,3)] obtain x where
      x: "domain_prop g T dt domain ''range'' = Inr x" and o: "od_get od v = Some x"
      by blast
    show "(case z of (dt, domain) \<Rightarrow> \<lambda>od.
          case xml_find domain ''MinValue'' of
            None \<Rightarrow> od_get od v = Some (PStr [])
          | Some mn \<Rightarrow>
              (case xml_find domain ''MaxValue'' of
                 None \<Rightarrow> od_get od v = Some (PStr [])
               | Some mx \<Rightarrow>
                   (\<forall>lo hi. py_float g (elem_text mn) = Inr lo \<and>
                           py_float g (elem_text mx) = Inr hi \<longrightarrow>
                           od_get od v = Some (PRange lo hi)))) od"
    proof (cases "xml_find domain ''MinValue''")
      case None
      from domain_prop_range_absent [OF None, of g T dt] x o show ?thesis
        by (simp add: z None)
    next
      case mn: (Some mn)
      show ?thesis
      proof (cases "xml_find domain ''MaxValue''")
        case None
        from domain_prop_range_max_absent [OF None x] o show ?thesis
          by (simp add: z mn None)
      next
        case mx: (Some mx)
        have "od_get od v = Some (PRange lo hi)"
          if "py_float g (elem_text mn) = Inr lo" "py_float g (elem_text mx) = Inr hi"
          for lo hi
          using domain_prop_range_present [OF mn mx that, of T dt] x o by simp
        then show ?thesis by (simp add: z mn mx)
      qed
    qed
  qed
  with gd show ?thesis by blast
qed

theorem get_domains_range_witness:
  "fst (get_domains (Ogr ex_ogr) ex_tables (ex_state ''a.gdb'')) =
     Inr [[(''Name'', PStr ''Kind''), (''Domain type'', PStr ''CodedValue''),
           (''Coded values'', PDict [(Some ''1'', Some ''Road''), (Some ''2'', Some ''Path'')]),
           (''Range'', PStr [])],
          [(''Name'', PStr ''Speed''), (''Domain type'', PStr ''Range''),
           (''Coded values'', PStr []), (''Range'', PRange 1 5)]] \<and>
   distinct (map snd (OGR_GDB_DOMAIN_PROPS ex_tables)) \<and>
   (''range'', ''Range'') \<in> set (OGR_GDB_DOMAIN_PROPS ex_tables) \<and>
   xml_find ex_coded ''MinValue'' = None \<and>
   xml_find ex_range ''MinValue'' = Some (Element ''MinValue'' (Some ''1'') []) \<and>
   xml_find ex_range ''MaxValue'' = Some (Element ''MaxValue'' (Some ''5'') []) \<and>
   py_float ex_ogr (Some ''1'') = Inr 1 \<and> py_float ex_ogr (Some ''5'') = Inr 5"
proof -
  have h2: "distinct (map snd (OGR_GDB_DOMAIN_PROPS ex_tables))"
    by (simp add: ex_tables_def)
  have h3: "(''range'', ''Range'') \<in> set (OGR_GDB_DOMAIN_PROPS ex_tables)"
    by (simp add: ex_tables_def)
  have s: "xml_find ex_coded ''MinValue'' = None"
    "xml_find ex_range ''MinValue'' = Some (Element ''MinValue'' (Some ''1'') [])"
    "xml_find ex_range ''MaxValue'' = Some (Element ''MaxValue'' (Some ''5'') [])"
    "py_float ex_ogr (Some ''1'') = Inr 1" "py_float ex_ogr (Some ''5'') = Inr 5"
    by (simp_all add: xml_find_def py_float_def ex_defs)
  from get_domains_range [OF ex_get_domains_a h2 h3] ex_get_domains_a h2 h3 s
  show ?thesis by blast
qed

lemma list_all2_ex: "(\<And>x. x \<in> set xs \<Longrightarrow> \<exists>y. P x y) \<Longrightarrow> \<exists>ys. list_all2 P xs ys"
proof (induction xs)
  case Nil
  then show ?case by simp
next
  case (Cons x xs)
  from Cons.prems [of x] obtain y where y: "P x y" by auto
  from Cons.IH Cons.prems obtain ys where "list_all2 P xs ys" by auto
  with y have "list_all2 P (x # xs) (y # ys)" by simp
  then show ?case ..
qed

text \<open>
  Claim C6. On the fallback path, when the scan of the catalog has returned, the static
  table knows the two domain tags and every bound that is present has a text that
  \<^verbatim>\<open>float\<close> accepts, \<^verbatim>\<open>get_domains\<close> returns whatever sub-elements the domain
  definitions lack: each result has every label of \<^verbatim>\<open>OGR_GDB_DOMAIN_PROPS\<close> as a key,
  in table order, and a property whose sub-element is missing holds the empty string.
\<close>

theorem get_domains_missing_sub_elements:
  assumes "ogr_get_domains g (path (self s)) = Inr gd"
    and "map_of (OGR_DOMAIN_PROPS_MAPPINGS T) ''GPCodedValueDomain2'' \<noteq> None"
    and "map_of (OGR_DOMAIN_PROPS_MAPPINGS T) ''GPRangeDomain2'' \<noteq> None"
    and "\<forall>(dt, domain) \<in> set (domain_items gd).
           bound_ok g domain ''MinValue'' \<and> bound_ok g domain ''MaxValue''"
    and "distinct (map snd (OGR_GDB_DOMAIN_PROPS T))"
  shows "\<exists>ods. fst (get_domains (Ogr g) T s) = Inr ods \<and>
     list_all2
       (\<lambda>(dt, domain) od.
          od_keys od = map snd (OGR_GDB_DOMAIN_PROPS T) \<and>
          (\<forall>k v. (k, v) \<in> set (OGR_GDB_DOMAIN_PROPS T) \<and> sub_element_missing domain k \<longrightarrow>
                 od_get od v = Some (PStr [])))
       (domain_items gd) ods"
proof -
  have tot: "\<exists>od. (case z of (dt, domain) \<Rightarrow> \<lambda>od. domain_od g T dt domain = Inr od) od"
    if z: "z \<in> set (domain_items gd)" for z
  proof -
    obtain dt domain where zz: "z = (dt, domain)" by (cases z)
    from domain_items_tagged [OF assms(1)] z zz
    have dt: "dt = ''GPCodedValueDomain2'' \<or> dt = ''GPRangeDomain2''" by blast
    from assms(4) z zz have b: "bound_ok g domain ''MinValue''" "bound_ok g domain ''MaxValue''"
      by auto
    have "\<exists>x. domain_prop g T dt domain k = Inr x" for k
    proof -
      consider "k = ''domainType''" | "k = ''range''" | "k = ''codedValues''"
        | "k \<noteq> ''domainType''" "k \<noteq> ''range''" "k \<noteq> ''codedValues''" by blast
      then show ?thesis
      proof cases
        case 1
        with dt assms(2,3) show ?thesis by (auto simp: domain_prop_def)
      next
        case 2
        with domain_prop_range_total [OF b] show ?thesis by simp
      next
        case 3
        then show ?thesis by (simp add: domain_prop_coded split: option.splits)
      next
        case 4
        then show ?thesis by (rule domain_prop_plain_total)
      qed
    qed
    then have "\<exists>od. domain_od g T dt domain = Inr od"
      unfolding domain_od_def by (intro od_fill_total) blast
    then show ?thesis by (simp add: zz)
  qed
  from list_all2_ex [of "domain_items gd"
      "\<lambda>z od. (case z of (dt, domain) \<Rightarrow> \<lambda>od. domain_od g T dt domain = Inr od) od", OF tot]
  obtain ods where l: "list_all2 (\<lambda>(dt, domain) od. domain_od g T dt domain = Inr od)
      (domain_items gd) ods"
    by auto
  with assms(1) have r: "fst (get_domains (Ogr g) T s) = Inr ods"
    unfolding get_domains_ogr_iff by blast
  have "list_all2
       (\<lambda>(dt, domain) od.
          od_keys od = map snd (OGR_GDB_DOMAIN_PROPS T) \<and>
          (\<forall>k v. (k, v) \<in> set (OGR_GDB_DOMAIN_PROPS T) \<and> sub_element_missing domain k \<longrightarrow>
                 od_get od v = Some (PStr [])))
       (domain_items gd) ods"
  proof (rule list.rel_mono_strong [OF l])
    fix z od
    assume a: "(case z of (dt, domain) \<Rightarrow> \<lambda>od. domain_od g T dt domain = Inr od) od"
    obtain dt domain where z: "z = (dt, domain)" by (cases z)
    from a z have d: "domain_od g T dt domain = Inr od" by simp
    have keys: "od_keys od = map snd (OGR_GDB_DOMAIN_PROPS T)"
      using domain_od_keys [OF d] label_keys_distinct [OF assms(5)] by simp
    have miss: "od_get od v = Some (PStr [])"
      if kv: "(k, v) \<in> set (OGR_GDB_DOMAIN_PROPS T)" and m: "sub_element_missing domain k"
      for k v
    proof -
      from domain_od_get [OF d assms(5) kv] obtain x where
        x: "domain_prop g T dt domain k = Inr x" and o: "od_get od v = Some x" by blast
      from m have nt: "k \<noteq> ''domainType''" by (auto simp: sub_element_missing_def)
      consider "k = ''range''" | "k = ''codedValues''"
        | "k \<noteq> ''range''" "k \<noteq> ''codedValues''" by blast
      then have "x = PStr []"
      proof cases
        case 1
        with m have "xml_find domain ''MinValue'' = None \<or> xml_find domain ''MaxValue'' = None"
          by (simp add: sub_element_missing_def)
        then show ?thesis
        proof
          assume "xml_find domain ''MinValue'' = None"
          from domain_prop_range_absent [OF this, of g T dt] x 1 show ?thesis by simp
        next
          assume "xml_find domain ''MaxValue'' = None"
          from domain_prop_range_max_absent [OF this] x 1 show ?thesis by simp
        qed
      next
        case 2
        with m have "source_coded_values domain = None"
          by (simp add: sub_element_missing_def)
        with x 2 show ?thesis by (simp add: domain_prop_coded)
      next
        case 3
        with m nt have "xml_find domain k = None" by (simp add: sub_element_missing_def)
        from domain_prop_plain_missing [OF nt 3 this, of g T dt] x show ?thesis by simp
      qed
      with o show ?thesis by simp
    qed
    from keys miss show "(case z of (dt, domain) \<Rightarrow> \<lambda>od.
          od_keys od = map snd (OGR_GDB_DOMAIN_PROPS T) \<and>
          (\<forall>k v. (k, v) \<in> set (OGR_GDB_DOMAIN_PROPS T) \<and> sub_element_missing domain k \<longrightarrow>
                 od_get od v = Some (PStr []))) od"
      by (auto simp: z)
  qed
  with r show ?thesis by blast
qed

theorem get_domains_missing_sub_elements_witness:
  "ogr_get_domains ex_ogr (path (self (ex_state ''a.gdb''))) =
     Inr [(''GPCodedValueDomain2'', [ex_coded]), (''GPRangeDomain2'', [ex_range])] \<and>
   map_of (OGR_DOMAIN_PROPS_MAPPINGS ex_tables) ''GPCodedValueDomain2'' \<noteq> None \<and>
   map_of (OGR_DOMAIN_PROPS_MAPPINGS ex_tables) ''GPRangeDomain2'' \<noteq> None \<and>
   domain_items [(''GPCodedValueDomain2'', [ex_coded]), (''GPRangeDomain2'', [ex_range])] =
     [(''GPCodedValueDomain2'', ex_coded), (''GPRangeDomain2'', ex_range)] \<and>
   bound_ok ex_ogr ex_coded ''MinValue'' \<and> bound_ok ex_ogr ex_coded ''MaxValue'' \<and>
   bound_ok ex_ogr ex_range ''MinValue'' \<and> bound_ok ex_ogr ex_range ''MaxValue'' \<and>
   distinct (map snd (OGR_GDB_DOMAIN_PROPS ex_tables)) \<and>
   (''codedValues'', ''Coded values'') \<in> set (OGR_GDB_DOMAIN_PROPS ex_tables) \<and>
   sub_element_missing ex_range ''codedValues'' \<and>
   fst (get_domains (Ogr ex_ogr) ex_tables (ex_state ''a.gdb'')) =
     Inr [[(''Name'', PStr ''Kind''), (''Domain type'', PStr ''CodedValue''),
           (''Coded values'', PDict [(Some ''1'', Some ''Road''), (Some ''2'', Some ''Path'')]),
           (''Range'', PStr [])],
          [(''Name'', PStr ''Speed''), (''Domain type'', PStr ''Range''),
           (''Coded values'', PStr []), (''Range'', PRange 1 5)]]"
proof -
  have h2: "map_of (OGR_DOMAIN_PROPS_MAPPINGS ex_tables) ''GPCodedValueDomain2'' \<noteq> None"
    and h3: "map_of (OGR_DOMAIN_PROPS_MAPPINGS ex_tables) ''GPRangeDomain2'' \<noteq> None"
    and h5: "distinct (map snd (OGR_GDB_DOMAIN_PROPS ex_tables))"
    and h6: "(''codedValues'', ''Coded values'') \<in> set (OGR_GDB_DOMAIN_PROPS ex_tables)"
    by (simp_all add: ex_tables_def)
  have h4: "\<forall>(dt, domain) \<in> set (domain_items
        [(''GPCodedValueDomain2'', [ex_coded]), (''GPRangeDomain2'', [ex_range])]).
      bound_ok ex_ogr domain ''MinValue'' \<and> bound_ok ex_ogr domain ''MaxValue''"
    by (simp add: domain_items_def bound_ok_def xml_find_def py_float_def ex_defs)
  have b: "domain_items [(''GPCodedValueDomain2'', [ex_coded]), (''GPRangeDomain2'', [ex_range])] =
     [(''GPCodedValueDomain2'', ex_coded), (''GPRangeDomain2'', ex_range)]"
    "bound_ok ex_ogr ex_coded ''MinValue''" "bound_ok ex_ogr ex_coded ''MaxValue''"
    "bound_ok ex_ogr ex_range ''MinValue''" "bound_ok ex_ogr ex_range ''MaxValue''"
    by (simp_all add: domain_items_def bound_ok_def xml_find_def py_float_def ex_defs)
  have m: "sub_element_missing ex_range ''codedValues''"
    by (simp add: sub_element_missing_def source_coded_values_def xml_find_def ex_range_def)
  from get_domains_missing_sub_elements [OF ex_ogr_get_domains_a h2 h3 h4 h5]
    ex_ogr_get_domains_a h2 h3 b h5 h6 m ex_get_domains_a
  show ?thesis by blast
qed

end
